theory Spec2Isabelle
  imports Main
begin

section \<open>The Bluetooth screen of the mobile app\<close>

text \<open>
  The screen \<open>BluetoothScreen\<close> of \<open>mobile-app/app/(tabs)/bluetooth.tsx\<close> sequences calls to a
  BLE client library, to the operating system's permission dialog and to a base64 encoder,
  and keeps a few pieces of view state. The model below gives every handler of the screen
  as a function from the state before to the state after together with the list of effects
  the handler performs, in the order of the source: calls into the BLE client, modal alerts
  and console diagnostics. What the outside world answers to a call (a promise that resolves
  or rejects, the value a library function returns) is an argument of the handler, so that
  every theorem holds for every answer. A handler is taken as one step, from its entry to
  its last continuation.
\<close>

subsection \<open>Values of the libraries\<close>

text \<open>
  An exception or a rejected promise. \<open>ReferenceError x\<close> is what the JavaScript runtime
  throws when the identifier \<open>x\<close> is bound in no enclosing scope, \<open>TypeError m\<close> what it
  throws when a value that is not a function is called; \<open>Thrown m\<close> is any error raised by
  a library.
\<close>

datatype error = ReferenceError string | TypeError string | Thrown string

record GattAttribute =
  uuid :: string

record Characteristic = GattAttribute +
  isWritableWithResponse :: bool
  isWritableWithoutResponse :: bool

text \<open>
  \<open>characteristics\<close> is the outcome of the asynchronous method \<open>service.characteristics()\<close>,
  and \<open>services\<close> below the outcome of \<open>device.services()\<close>: \<open>Inl\<close> when the promise rejects.
\<close>

record Service = GattAttribute +
  characteristics :: "error + Characteristic list"

record Device =
  deviceId :: string
  name :: "string option"
  services :: "error + Service list"

datatype BleManager = BleManager

datatype Subscription = Subscription nat

text \<open>
  The cell \<open>scanSubscription\<close> is declared \<open>useRef<any>(null)\<close> and receives whatever
  \<open>manager.startDeviceScan\<close> returns. The source only ever evaluates
  \<open>scanSubscription.current?.remove()\<close> on it, so three kinds of value are told apart:
  \<^item> \<open>Nullish\<close>, that is \<open>null\<close> or \<open>undefined\<close>: the optional chain stops and nothing is
    called;
  \<^item> \<open>Removable s\<close>, an object with a method \<open>remove\<close>: the method is called;
  \<^item> \<open>Unremovable\<close>, any other value, a promise for instance: its \<open>remove\<close> is
    \<open>undefined\<close>, and the call throws a type error.
\<close>

datatype subscription_value = Nullish | Removable Subscription | Unremovable

datatype PlatformOS = Android | Ios | Web

datatype permission = ACCESS_FINE_LOCATION | BLUETOOTH_SCAN | BLUETOOTH_CONNECT

datatype permission_status = GRANTED | DENIED | NEVER_ASK_AGAIN

subsection \<open>Effects\<close>

text \<open>
  The modal alerts of the screen, one constructor for each \<open>Alert.alert\<close> of the source:
  \<^item> \<open>BleNoDisponible\<close>: title "BLE no disponible" (line 70);
  \<^item> \<open>Permisos\<close>: title "Permisos" (line 83);
  \<^item> \<open>Conectado n\<close>: title "Conectado", message "Conectado a n" (line 119);
  \<^item> \<open>ErrorNoSePudoConectar\<close>: title "Error", message "No se pudo conectar" (line 122);
  \<^item> \<open>NoConectado\<close>: title "No conectado" (line 130);
  \<^item> \<open>Enviado\<close>: title "Enviado" (line 146);
  \<^item> \<open>NoCharacteristic\<close>: title "No characteristic" (line 151);
  \<^item> \<open>ErrorNoSePudoEnviar\<close>: title "Error", message "No se pudo enviar payload" (line 154);
  \<^item> \<open>Desconectado\<close>: title "Desconectado" (line 173).
\<close>

datatype alert =
    BleNoDisponible
  | Permisos
  | Conectado string
  | ErrorNoSePudoConectar
  | NoConectado
  | Enviado
  | NoCharacteristic
  | ErrorNoSePudoEnviar
  | Desconectado

text \<open>
  An effect is a modal alert, a console diagnostic (with its label, when the source gives
  one), or a call of a method of the BLE client, of one of its objects or of the permission
  interface. The BLE client offers a write with response and a write without response; both
  are effects, whichever the screen uses.
\<close>

datatype effect =
    Alert_alert alert
  | Console_warn "string option" error
  | Call_requestMultiple "permission list"
  | Call_startDeviceScan
  | Call_stopDeviceScan
  | Call_remove Subscription
  | Call_connectToDevice string
  | Call_discoverAllServicesAndCharacteristics string
  | Call_services string
  | Call_characteristics string
  | Call_writeCharacteristicWithResponseForDevice string string string string
  | Call_writeCharacteristicWithoutResponseForDevice string string string string
  | Call_cancelDeviceConnection string

fun is_write :: "effect \<Rightarrow> bool" where
  "is_write (Call_writeCharacteristicWithResponseForDevice d s c v) = True"
| "is_write (Call_writeCharacteristicWithoutResponseForDevice d s c v) = True"
| "is_write e = False"

subsection \<open>State of the screen\<close>

text \<open>
  The four \<open>useState\<close> cells and the two \<open>useRef\<close> cells of the component (lines 43 to 48).
  The component compares identifiers for equality and tests them for emptiness. The payload
  is the text of the input field as its list of UTF-16 code units; the component hands it to
  the encoder without looking into it.
\<close>

record State =
  devices :: "Device list"
  scanning :: bool
  connected :: "Device option"
  payload :: "nat list"
  scanSubscription :: subscription_value
  managerRef :: "BleManager option"

subsection \<open>Permissions\<close>

text \<open>
  \<open>requestAndroidPermissions\<close> (lines 23 to 40). \<open>response\<close> is the answer of
  \<open>PermissionsAndroid.requestMultiple\<close>: a rejection, or the mapping from permission to
  grant result.
\<close>

definition requestAndroidPermissions ::
  "PlatformOS \<Rightarrow> (error + (permission \<rightharpoonup> permission_status)) \<Rightarrow> bool \<times> effect list" where
  "requestAndroidPermissions os response =
     (if os \<noteq> Android then (True, [])
      else (case response of
              Inl err \<Rightarrow> False
            | Inr granted \<Rightarrow>
                granted ACCESS_FINE_LOCATION = Some GRANTED \<or> granted BLUETOOTH_SCAN = Some GRANTED,
            [Call_requestMultiple [ACCESS_FINE_LOCATION, BLUETOOTH_SCAN, BLUETOOTH_CONNECT]]))"

subsection \<open>Mounting\<close>

text \<open>
  The initial values of the state cells and the body of the mount effect (lines 50 to 58):
  \<open>created\<close> is the outcome of \<open>new BleManager()\<close>.
\<close>

definition mount :: "(error + BleManager) \<Rightarrow> State \<times> effect list" where
  "mount created =
     (let st = \<lparr>devices = [], scanning = False, connected = None, payload = [],
                scanSubscription = Nullish, managerRef = None\<rparr>
      in case created of
           Inr m \<Rightarrow> (st\<lparr>managerRef := Some m\<rparr>, [])
         | Inl e \<Rightarrow>
             (st\<lparr>managerRef := None\<rparr>,
              [Console_warn (Some ''BleManager not available in this environment'') e]))"

definition ensureManager :: "State \<Rightarrow> BleManager option \<times> effect list" where
  "ensureManager st =
     (managerRef st, if managerRef st = None then [Alert_alert BleNoDisponible] else [])"

subsection \<open>Scanning\<close>

text \<open>
  \<open>startScan\<close> (lines 78 to 101). \<open>sub\<close> is the value \<open>manager.startDeviceScan\<close> returns,
  which the source stores in \<open>scanSubscription.current\<close>.
\<close>

definition startScan ::
  "PlatformOS \<Rightarrow> (error + (permission \<rightharpoonup> permission_status)) \<Rightarrow> subscription_value \<Rightarrow>
   State \<Rightarrow> State \<times> effect list" where
  "startScan os response sub st =
     (case ensureManager st of
        (None, es) \<Rightarrow> (st, es)
      | (Some manager, es) \<Rightarrow>
          (case requestAndroidPermissions os response of
             (ok, ps) \<Rightarrow>
               if \<not> ok then (st, es @ ps @ [Alert_alert Permisos])
               else (st\<lparr>devices := [], scanning := True, scanSubscription := sub\<rparr>,
                     es @ ps @ [Call_startDeviceScan])))"

text \<open>
  The listener given to \<open>manager.startDeviceScan\<close> (lines 88 to 100), called by the BLE
  client with an error or with a discovered device. The empty identifier is falsy.
\<close>

definition scanListener :: "error option \<Rightarrow> Device option \<Rightarrow> State \<Rightarrow> State \<times> effect list" where
  "scanListener err device st =
     (case err of
        Some e \<Rightarrow> (st\<lparr>scanning := False\<rparr>, [Console_warn (Some ''Scan error'') e])
      | None \<Rightarrow>
          (case device of
             None \<Rightarrow> (st, [])
           | Some dv \<Rightarrow>
               if deviceId dv \<noteq> [] then
                 (st\<lparr>devices :=
                       (if find (\<lambda>d. deviceId d = deviceId dv) (devices st) \<noteq> None
                        then devices st else devices st @ [dv])\<rparr>, [])
               else (st, [])))"

text \<open>
  \<open>stopScan\<close> (lines 103 to 109). The third component of the result is the exception that
  leaves the function: line 108 throws when the stored value is neither nullish nor an
  object with a method \<open>remove\<close>, after \<open>stopDeviceScan\<close> has been called and the scanning
  flag cleared.
\<close>

definition stopScan :: "State \<Rightarrow> State \<times> effect list \<times> error option" where
  "stopScan st =
     (case managerRef st of
        None \<Rightarrow> (st, [], None)
      | Some manager \<Rightarrow>
          (case scanSubscription st of
             Nullish \<Rightarrow> (st\<lparr>scanning := False\<rparr>, [Call_stopDeviceScan], None)
           | Removable s \<Rightarrow> (st\<lparr>scanning := False\<rparr>, [Call_stopDeviceScan, Call_remove s], None)
           | Unremovable \<Rightarrow>
               (st\<lparr>scanning := False\<rparr>, [Call_stopDeviceScan],
                Some (TypeError ''remove is not a function''))))"

text \<open>
  The scan button (line 164). An exception of \<open>stopScan\<close> leaves the handler; \<open>startScan\<close>
  is asynchronous and throws nothing into it.
\<close>

definition scanButton_onPress ::
  "PlatformOS \<Rightarrow> (error + (permission \<rightharpoonup> permission_status)) \<Rightarrow> subscription_value \<Rightarrow>
   State \<Rightarrow> State \<times> effect list \<times> error option" where
  "scanButton_onPress os response sub st =
     (if scanning st then stopScan st
      else (case startScan os response sub st of (st', es) \<Rightarrow> (st', es, None)))"

subsection \<open>Connecting\<close>

text \<open>
  \<open>connectToDevice\<close> (lines 111 to 124). \<open>conn\<close> is the outcome of
  \<open>manager.connectToDevice(device.id)\<close> and \<open>disc\<close> the outcome of
  \<open>d.discoverAllServicesAndCharacteristics()\<close>, whose value the source drops. The call of
  \<open>stopScan\<close> is inside the \<open>try\<close>: an exception it throws goes to the \<open>catch\<close>, and the
  connection is not opened.
\<close>

definition displayName :: "Device \<Rightarrow> string" where
  "displayName d = (case name d of None \<Rightarrow> deviceId d | Some n \<Rightarrow> if n \<noteq> [] then n else deviceId d)"

definition connectToDevice ::
  "Device \<Rightarrow> (error + Device) \<Rightarrow> (error + unit) \<Rightarrow> State \<Rightarrow> State \<times> effect list" where
  "connectToDevice device conn disc st =
     (case ensureManager st of
        (None, es) \<Rightarrow> (st, es)
      | (Some manager, es) \<Rightarrow>
          (case stopScan st of
             (st1, es1, thrown) \<Rightarrow>
               (case thrown of
                  Some e \<Rightarrow>
                    (st1, es @ es1 @ [Console_warn None e, Alert_alert ErrorNoSePudoConectar])
                | None \<Rightarrow>
                    (case conn of
                       Inl e \<Rightarrow>
                         (st1, es @ es1 @ [Call_connectToDevice (deviceId device),
                                            Console_warn None e,
                                            Alert_alert ErrorNoSePudoConectar])
                     | Inr d \<Rightarrow>
                         (case disc of
                            Inl e \<Rightarrow>
                              (st1, es @ es1 @
                                    [Call_connectToDevice (deviceId device),
                                     Call_discoverAllServicesAndCharacteristics (deviceId d),
                                     Console_warn None e, Alert_alert ErrorNoSePudoConectar])
                          | Inr u \<Rightarrow>
                              (st1\<lparr>connected := Some d\<rparr>,
                               es @ es1 @
                               [Call_connectToDevice (deviceId device),
                                Call_discoverAllServicesAndCharacteristics (deviceId d),
                                Alert_alert (Conectado (displayName d))]))))))"

subsection \<open>Disconnecting\<close>

text \<open>
  The handler of the second button (lines 169 to 175). Its body reads the identifier
  \<open>manager\<close>, which no scope around the handler binds: the component binds \<open>managerRef\<close>, and
  \<open>manager\<close> is a local constant of \<open>startScan\<close>, \<open>stopScan\<close>, \<open>connectToDevice\<close> and
  \<open>sendPayload\<close> only. The runtime therefore looks \<open>manager\<close> up in the global scope;
  \<open>global_manager\<close> is what it finds there, \<open>None\<close> when the global scope has no such
  name, in which case the read throws. The third component of the result is the exception
  that leaves the handler.
\<close>

definition disconnectButton_onPress ::
  "BleManager option \<Rightarrow> State \<Rightarrow> State \<times> effect list \<times> error option" where
  "disconnectButton_onPress global_manager st =
     (case connected st of
        None \<Rightarrow> (st, [], None)
      | Some c \<Rightarrow>
          (case global_manager of
             None \<Rightarrow> (st, [], Some (ReferenceError ''manager''))
           | Some manager \<Rightarrow>
               (st\<lparr>connected := None\<rparr>,
                [Call_cancelDeviceConnection (deviceId c), Alert_alert Desconectado], None)))"

subsection \<open>Sending the payload\<close>

text \<open>
  How a loop body ends: it falls through to the next iteration, it returns from
  \<open>sendPayload\<close>, or it throws into the \<open>catch\<close> of \<open>sendPayload\<close>.
\<close>

datatype completion = Normal | Returned | Threw error

text \<open>
  The inner loop of \<open>sendPayload\<close> (lines 137 to 149) over the characteristics of one
  service. \<open>btoa\<close> is the encoder imported from the package \<open>base-64\<close>, which may throw;
  \<open>wr\<close> is the outcome of the write, should one be issued.
\<close>

fun sendPayload_characteristics ::
  "(nat list \<Rightarrow> error + string) \<Rightarrow> (error + unit) \<Rightarrow> nat list \<Rightarrow> string \<Rightarrow> string \<Rightarrow>
   Characteristic list \<Rightarrow> completion \<times> effect list" where
  "sendPayload_characteristics btoa wr pl dev svc [] = (Normal, [])"
| "sendPayload_characteristics btoa wr pl dev svc (c # cs) =
     (if isWritableWithResponse c \<or> isWritableWithoutResponse c then
        (case btoa pl of
           Inl e \<Rightarrow> (Threw e, [])
         | Inr base64 \<Rightarrow>
             (case wr of
                Inl e \<Rightarrow>
                  (Threw e, [Call_writeCharacteristicWithResponseForDevice dev svc (uuid c) base64])
              | Inr u \<Rightarrow>
                  (Returned, [Call_writeCharacteristicWithResponseForDevice dev svc (uuid c) base64,
                              Alert_alert Enviado])))
      else sendPayload_characteristics btoa wr pl dev svc cs)"

text \<open>The outer loop (lines 135 to 150) over the services.\<close>

fun sendPayload_services ::
  "(nat list \<Rightarrow> error + string) \<Rightarrow> (error + unit) \<Rightarrow> nat list \<Rightarrow> string \<Rightarrow>
   Service list \<Rightarrow> completion \<times> effect list" where
  "sendPayload_services btoa wr pl dev [] = (Normal, [])"
| "sendPayload_services btoa wr pl dev (service # rest) =
     (case characteristics service of
        Inl e \<Rightarrow> (Threw e, [Call_characteristics (uuid service)])
      | Inr cs \<Rightarrow>
          (case sendPayload_characteristics btoa wr pl dev (uuid service) cs of
             (r, es) \<Rightarrow>
               (case r of
                  Normal \<Rightarrow>
                    (case sendPayload_services btoa wr pl dev rest of
                       (r', es') \<Rightarrow> (r', Call_characteristics (uuid service) # es @ es'))
                | Returned \<Rightarrow> (Returned, Call_characteristics (uuid service) # es)
                | Threw e \<Rightarrow> (Threw e, Call_characteristics (uuid service) # es))))"

text \<open>\<open>sendPayload\<close> (lines 126 to 156).\<close>

definition sendPayload ::
  "(nat list \<Rightarrow> error + string) \<Rightarrow> (error + unit) \<Rightarrow> State \<Rightarrow> State \<times> effect list" where
  "sendPayload btoa wr st =
     (case ensureManager st of
        (None, es) \<Rightarrow> (st, es)
      | (Some manager, es) \<Rightarrow>
          (case connected st of
             None \<Rightarrow> (st, es @ [Alert_alert NoConectado])
           | Some c \<Rightarrow>
               (case services c of
                  Inl err \<Rightarrow>
                    (st, es @ [Call_services (deviceId c), Console_warn None err,
                               Alert_alert ErrorNoSePudoEnviar])
                | Inr svcs \<Rightarrow>
                    (case sendPayload_services btoa wr (payload st) (deviceId c) svcs of
                       (r, es') \<Rightarrow>
                         (case r of
                            Normal \<Rightarrow>
                              (st, es @ Call_services (deviceId c) # es' @
                                   [Alert_alert NoCharacteristic])
                          | Returned \<Rightarrow> (st, es @ Call_services (deviceId c) # es')
                          | Threw err \<Rightarrow>
                              (st, es @ Call_services (deviceId c) # es' @
                                   [Console_warn None err, Alert_alert ErrorNoSePudoEnviar]))))))"

subsection \<open>States the mounted screen can reach\<close>

text \<open>
  The screen starts in the state the mount leaves, and then runs its handlers in any order
  and with any answers of the outside world: the two scan operations (also directly, not
  only through the button that alternates them), the scan listener, which only a BLE client
  can call, a connection to a device of the list, the disconnect button, the send button and
  an edit of the text field. Unmounting ends the life of the screen and is no step.
\<close>

inductive reachable :: "State \<Rightarrow> bool" where
  r_mount: "reachable (fst (mount created))"
| r_startScan: "reachable st \<Longrightarrow> reachable (fst (startScan os response sub st))"
| r_stopScan: "reachable st \<Longrightarrow> reachable (fst (stopScan st))"
| r_scanButton: "reachable st \<Longrightarrow> reachable (fst (scanButton_onPress os response sub st))"
| r_scanListener:
    "reachable st \<Longrightarrow> managerRef st \<noteq> None \<Longrightarrow> reachable (fst (scanListener err device st))"
| r_connectToDevice:
    "reachable st \<Longrightarrow> device \<in> set (devices st) \<Longrightarrow>
     reachable (fst (connectToDevice device conn disc st))"
| r_disconnect: "reachable st \<Longrightarrow> reachable (fst (disconnectButton_onPress global_manager st))"
| r_sendPayload: "reachable st \<Longrightarrow> reachable (fst (sendPayload btoa wr st))"
| r_setPayload: "reachable st \<Longrightarrow> reachable (st\<lparr>payload := text\<rparr>)"

subsection \<open>Notions used in the statements\<close>

text \<open>The test of line 138: a characteristic is flagged writable, with or without response.\<close>

abbreviation writable :: "Characteristic \<Rightarrow> bool" where
  "writable c \<equiv> isWritableWithResponse c \<or> isWritableWithoutResponse c"

text \<open>
  The BLE client calling the scan listener once for each event of a list, in order.
\<close>

fun scanEvents :: "(error option \<times> Device option) list \<Rightarrow> State \<Rightarrow> State" where
  "scanEvents [] st = st"
| "scanEvents ((err, device) # events) st = scanEvents events (fst (scanListener err device st))"


text \<open>
  What send-payload does from the selected characteristic on, given the outcome \<open>enc\<close> of the
  encoder and the outcome \<open>wr\<close> of the write: its effects inside the loop, and how the loop
  body ends. Both only abbreviate the second equation of \<open>sendPayload_characteristics\<close> in
  the lemmas about the loops.
\<close>

definition selected_effects ::
  "(error + string) \<Rightarrow> (error + unit) \<Rightarrow> string \<Rightarrow> string \<Rightarrow> string \<Rightarrow> effect list" where
  "selected_effects enc wr dev svc chr =
     (case enc of
        Inl e \<Rightarrow> []
      | Inr encoded \<Rightarrow>
          Call_writeCharacteristicWithResponseForDevice dev svc chr encoded #
          (case wr of Inl e \<Rightarrow> [] | Inr u \<Rightarrow> [Alert_alert Enviado]))"

definition selected_completion :: "(error + string) \<Rightarrow> (error + unit) \<Rightarrow> completion" where
  "selected_completion enc wr =
     (case enc of
        Inl e \<Rightarrow> Threw e
      | Inr encoded \<Rightarrow> (case wr of Inl e \<Rightarrow> Threw e | Inr u \<Rightarrow> Returned))"

subsection \<open>Example values\<close>

text \<open>
  A peripheral with three services: the first has one characteristic, which is not writable;
  the second has four, of which the third is writable without response only and the fourth
  writable with response; the third has one writable characteristic. \<open>ex_discovered\<close>
  is the same peripheral as the scan reports it, \<open>ex_sensor\<close> a peripheral with no writable
  characteristic. \<open>ex_btoa\<close> stands for the encoder on the two payloads used below: the
  text "F" (code unit 70) encodes to "Rg==", and the euro sign (code unit 8364), which is
  outside Latin-1, is rejected.
\<close>

definition ex_characteristic :: "string \<Rightarrow> bool \<Rightarrow> bool \<Rightarrow> Characteristic" where
  "ex_characteristic u r n =
     \<lparr>uuid = u, isWritableWithResponse = r, isWritableWithoutResponse = n\<rparr>"

definition ex_service1 :: Service where
  "ex_service1 =
     \<lparr>uuid = ''1800'', characteristics = Inr [ex_characteristic ''2a00'' False False]\<rparr>"

definition ex_service2 :: Service where
  "ex_service2 =
     \<lparr>uuid = ''ffe0'',
      characteristics = Inr [ex_characteristic ''ffe1'' False False,
                             ex_characteristic ''ffe2'' False False,
                             ex_characteristic ''ffe3'' False True,
                             ex_characteristic ''ffe4'' True False]\<rparr>"

definition ex_service3 :: Service where
  "ex_service3 =
     \<lparr>uuid = ''ffd0'', characteristics = Inr [ex_characteristic ''ffd1'' True True]\<rparr>"

definition ex_discovered :: Device where
  "ex_discovered =
     \<lparr>deviceId = ''AA:BB:CC:DD:EE:FF'', name = Some ''MecanumCar'',
      services = Inl (Thrown ''Device is not connected'')\<rparr>"

definition ex_car :: Device where
  "ex_car = ex_discovered\<lparr>services := Inr [ex_service1, ex_service2, ex_service3]\<rparr>"

definition ex_sensor :: Device where
  "ex_sensor = ex_discovered\<lparr>services := Inr [ex_service1, ex_service1]\<rparr>"

definition ex_granted :: "permission \<rightharpoonup> permission_status" where
  "ex_granted =
     [ACCESS_FINE_LOCATION \<mapsto> DENIED, BLUETOOTH_SCAN \<mapsto> GRANTED,
      BLUETOOTH_CONNECT \<mapsto> NEVER_ASK_AGAIN]"

definition ex_denied :: "permission \<rightharpoonup> permission_status" where
  "ex_denied =
     [ACCESS_FINE_LOCATION \<mapsto> DENIED, BLUETOOTH_SCAN \<mapsto> NEVER_ASK_AGAIN,
      BLUETOOTH_CONNECT \<mapsto> GRANTED]"

definition ex_btoa :: "nat list \<Rightarrow> error + string" where
  "ex_btoa text = (if text = [70] then Inr ''Rg=='' else Inl (Thrown ''InvalidCharacterError''))"

text \<open>
  States of the screen: after a mount with and without a BLE client; after a scan has
  started, the client having returned an object with a method \<open>remove\<close>; after the
  peripheral has been discovered; after a connection to it, with the payload "F" and with
  the payload of the euro sign; after a connection to the sensor. The last two are the
  states after a scan has started and the peripheral has been discovered when the client
  has returned a promise from \<open>startDeviceScan\<close>.
\<close>

definition ex_mounted :: State where
  "ex_mounted = fst (mount (Inr BleManager))"

definition ex_no_ble :: State where
  "ex_no_ble = fst (mount (Inl (Thrown ''native module missing'')))"

definition ex_scanning :: State where
  "ex_scanning = fst (startScan Android (Inr ex_granted) (Removable (Subscription 1)) ex_mounted)"

definition ex_listed :: State where
  "ex_listed = fst (scanListener None (Some ex_discovered) ex_scanning)"

definition ex_connected :: State where
  "ex_connected = (fst (connectToDevice ex_discovered (Inr ex_car) (Inr ()) ex_listed))\<lparr>payload := [70]\<rparr>"

definition ex_connected_euro :: State where
  "ex_connected_euro = ex_connected\<lparr>payload := [8364]\<rparr>"

definition ex_connected_sensor :: State where
  "ex_connected_sensor = fst (connectToDevice ex_discovered (Inr ex_sensor) (Inr ()) ex_listed)"

definition ex_scanning_promise :: State where
  "ex_scanning_promise = fst (startScan Android (Inr ex_granted) Unremovable ex_mounted)"

definition ex_listed_promise :: State where
  "ex_listed_promise = fst (scanListener None (Some ex_discovered) ex_scanning_promise)"

section \<open>Properties\<close>

subsection \<open>What each handler leaves alone\<close>

lemma managerRef_startScan [simp]: "managerRef (fst (startScan os response sub st)) = managerRef st"
  by (simp add: startScan_def ensureManager_def split: option.splits prod.splits)

lemma managerRef_stopScan [simp]: "managerRef (fst (stopScan st)) = managerRef st"
  by (simp add: stopScan_def split: option.splits subscription_value.splits)

lemma managerRef_scanListener [simp]: "managerRef (fst (scanListener err device st)) = managerRef st"
  by (simp add: scanListener_def split: option.splits)

lemma devices_stopScan [simp]: "devices (fst (stopScan st)) = devices st"
  by (simp add: stopScan_def split: option.splits subscription_value.splits)

lemma connected_stopScan [simp]: "connected (fst (stopScan st)) = connected st"
  by (simp add: stopScan_def split: option.splits subscription_value.splits)

lemma scanning_stopScan: "managerRef st \<noteq> None \<Longrightarrow> scanning (fst (stopScan st)) = False"
  by (auto simp add: stopScan_def split: subscription_value.splits)

lemma connectToDevice_state:
  "fst (connectToDevice device conn disc st) =
     (case managerRef st of
        None \<Rightarrow> st
      | Some m \<Rightarrow>
          (case conn of
             Inl e \<Rightarrow> fst (stopScan st)
           | Inr d \<Rightarrow>
               (case disc of
                  Inl e \<Rightarrow> fst (stopScan st)
                | Inr u \<Rightarrow>
                    if scanSubscription st = Unremovable then fst (stopScan st)
                    else (fst (stopScan st))\<lparr>connected := Some d\<rparr>)))"
  by (cases "managerRef st"; cases conn; cases disc; cases "scanSubscription st")
    (simp_all add: connectToDevice_def ensureManager_def stopScan_def)

lemma managerRef_connectToDevice [simp]:
  "managerRef (fst (connectToDevice device conn disc st)) = managerRef st"
  by (simp add: connectToDevice_state split: option.splits sum.splits)

lemma devices_connectToDevice [simp]:
  "devices (fst (connectToDevice device conn disc st)) = devices st"
  by (simp add: connectToDevice_state split: option.splits sum.splits)

lemma managerRef_disconnect [simp]:
  "managerRef (fst (disconnectButton_onPress g st)) = managerRef st"
  by (simp add: disconnectButton_onPress_def split: option.splits)

lemma devices_disconnect [simp]:
  "devices (fst (disconnectButton_onPress g st)) = devices st"
  by (simp add: disconnectButton_onPress_def split: option.splits)

lemma fst_sendPayload [simp]: "fst (sendPayload btoa wr st) = st"
  by (simp add: sendPayload_def ensureManager_def
      split: option.splits sum.splits prod.splits completion.splits)

lemma connected_startScan [simp]: "connected (fst (startScan os response sub st)) = connected st"
  by (simp add: startScan_def ensureManager_def split: option.splits prod.splits)

lemma connected_scanListener [simp]: "connected (fst (scanListener err device st)) = connected st"
  by (simp add: scanListener_def split: option.splits)

lemma fst_scanButton:
  "fst (scanButton_onPress os response sub st) =
     (if scanning st then fst (stopScan st) else fst (startScan os response sub st))"
  by (simp add: scanButton_onPress_def split: prod.splits)

lemma managerRef_scanButton [simp]:
  "managerRef (fst (scanButton_onPress os response sub st)) = managerRef st"
  by (simp add: fst_scanButton)

lemma connected_scanButton [simp]:
  "connected (fst (scanButton_onPress os response sub st)) = connected st"
  by (simp add: fst_scanButton)

subsection \<open>The device list\<close>

lemma devices_startScan:
  "devices (fst (startScan os response sub st)) = devices st \<or>
   devices (fst (startScan os response sub st)) = []"
  by (simp add: startScan_def ensureManager_def split: option.splits prod.splits)

lemma devices_scanListener:
  "devices (fst (scanListener err device st)) =
     (case err of
        Some e \<Rightarrow> devices st
      | None \<Rightarrow>
          (case device of
             None \<Rightarrow> devices st
           | Some dv \<Rightarrow>
               if deviceId dv = [] \<or> deviceId dv \<in> deviceId ` set (devices st) then devices st
               else devices st @ [dv]))"
  by (cases err; cases device) (auto simp add: scanListener_def find_None_iff image_iff, metis)

lemma distinct_scanListener:
  "distinct (map deviceId (devices st)) \<Longrightarrow>
   distinct (map deviceId (devices (fst (scanListener err device st))))"
  by (simp add: devices_scanListener split: option.splits)

lemma distinct_startScan:
  "distinct (map deviceId (devices st)) \<Longrightarrow>
   distinct (map deviceId (devices (fst (startScan os response sub st))))"
  using devices_startScan [of os response sub st] by auto

lemma reachable_distinct: "reachable st \<Longrightarrow> distinct (map deviceId (devices st))"
proof (induction rule: reachable.induct)
  case (r_mount created)
  then show ?case by (simp add: mount_def Let_def split: sum.splits)
next
  case (r_scanButton st os response sub)
  then show ?case by (simp add: fst_scanButton distinct_startScan)
qed (simp_all add: distinct_startScan distinct_scanListener)

lemma distinct_scanEvents:
  "distinct (map deviceId (devices st)) \<Longrightarrow>
   distinct (map deviceId (devices (scanEvents events st)))"
  by (induction events st rule: scanEvents.induct) (simp_all add: distinct_scanListener)

lemma startScan_started_clears:
  "Call_startDeviceScan \<in> set (snd (startScan os response sub st)) \<Longrightarrow>
   devices (fst (startScan os response sub st)) = []"
  by (auto simp add: startScan_def ensureManager_def requestAndroidPermissions_def
      split: option.splits prod.splits if_splits)

subsection \<open>The BLE client exists wherever the screen has something to show for it\<close>

text \<open>
  A connected device and a non-empty device list both come from a BLE client: in every
  state the mounted screen reaches, either implies that \<open>managerRef\<close> holds a client.
\<close>

lemma connected_connectToDevice_manager:
  "connected (fst (connectToDevice device conn disc st)) \<noteq> None \<Longrightarrow> connected st = None \<Longrightarrow>
   managerRef st \<noteq> None"
  by (auto simp add: connectToDevice_def ensureManager_def split: option.splits)

lemma connected_disconnect:
  "connected (fst (disconnectButton_onPress g st)) \<noteq> None \<Longrightarrow> connected st \<noteq> None"
  by (auto simp add: disconnectButton_onPress_def split: option.splits)

lemma reachable_connected_manager:
  "reachable st \<Longrightarrow> connected st \<noteq> None \<Longrightarrow> managerRef st \<noteq> None"
proof (induction rule: reachable.induct)
  case (r_mount created)
  then show ?case by (simp add: mount_def Let_def split: sum.splits)
next
  case (r_connectToDevice st device conn disc)
  then show ?case
    using connected_connectToDevice_manager [of device conn disc st] by (cases "connected st") auto
next
  case (r_disconnect st g)
  then show ?case using connected_disconnect [of g st] by simp
qed simp_all

lemma reachable_devices_manager:
  "reachable st \<Longrightarrow> devices st \<noteq> [] \<Longrightarrow> managerRef st \<noteq> None"
proof (induction rule: reachable.induct)
  case (r_mount created)
  then show ?case by (simp add: mount_def Let_def split: sum.splits)
next
  case (r_startScan st os response sub)
  then show ?case using devices_startScan [of os response sub st] by auto
next
  case (r_scanButton st os response sub)
  then show ?case using devices_startScan [of os response sub st]
    by (auto simp add: fst_scanButton split: if_splits)
qed simp_all

subsection \<open>The loops of send-payload\<close>

lemma characteristics_none_writable:
  "\<forall>c\<in>set cs. \<not> writable c \<Longrightarrow>
   sendPayload_characteristics btoa wr pl dev svc cs = (Normal, [])"
  by (induction cs) simp_all

lemma characteristics_skip:
  "\<forall>x\<in>set skipped. \<not> writable x \<Longrightarrow>
   sendPayload_characteristics btoa wr pl dev svc (skipped @ cs) =
   sendPayload_characteristics btoa wr pl dev svc cs"
  by (induction skipped) simp_all

lemma selected_completion_not_Normal [simp]: "selected_completion enc wr \<noteq> Normal"
  by (simp add: selected_completion_def split: sum.splits)

lemma characteristics_first_writable:
  assumes "\<forall>x\<in>set skipped. \<not> writable x" and "writable c"
  shows "sendPayload_characteristics btoa wr pl dev svc (skipped @ c # unexamined) =
           (selected_completion (btoa pl) wr, selected_effects (btoa pl) wr dev svc (uuid c))"
  using assms
  by (simp add: characteristics_skip selected_completion_def selected_effects_def
      split: sum.splits)

lemma services_skip:
  "\<forall>s\<in>set before. \<exists>cs. characteristics s = Inr cs \<and> (\<forall>c\<in>set cs. \<not> writable c) \<Longrightarrow>
   sendPayload_services btoa wr pl dev (before @ rest) =
     (case sendPayload_services btoa wr pl dev rest of
        (r, es) \<Rightarrow> (r, map (\<lambda>s. Call_characteristics (uuid s)) before @ es))"
proof (induction before)
  case Nil
  then show ?case by simp
next
  case (Cons s before)
  from Cons.prems obtain cs where cs: "characteristics s = Inr cs" "\<forall>c\<in>set cs. \<not> writable c"
    by auto
  have "sendPayload_characteristics btoa wr pl dev (uuid s) cs = (Normal, [])"
    using cs(2) by (rule characteristics_none_writable)
  with cs(1) Cons show ?case by (simp split: prod.splits)
qed

lemma services_none_writable:
  "\<forall>s\<in>set svcs. \<exists>cs. characteristics s = Inr cs \<and> (\<forall>c\<in>set cs. \<not> writable c) \<Longrightarrow>
   sendPayload_services btoa wr pl dev svcs =
     (Normal, map (\<lambda>s. Call_characteristics (uuid s)) svcs)"
  using services_skip [of svcs btoa wr pl dev "[]"] by simp

lemma services_first_writable:
  assumes "\<forall>s\<in>set before. \<exists>cs. characteristics s = Inr cs \<and> (\<forall>c\<in>set cs. \<not> writable c)"
    and "characteristics service = Inr (skipped @ c # unexamined)"
    and "\<forall>x\<in>set skipped. \<not> writable x" and "writable c"
  shows "sendPayload_services btoa wr pl dev (before @ service # later) =
           (selected_completion (btoa pl) wr,
            map (\<lambda>s. Call_characteristics (uuid s)) before @
            Call_characteristics (uuid service) #
            selected_effects (btoa pl) wr dev (uuid service) (uuid c))"
proof -
  have "sendPayload_services btoa wr pl dev (service # later) =
          (selected_completion (btoa pl) wr,
           Call_characteristics (uuid service) #
           selected_effects (btoa pl) wr dev (uuid service) (uuid c))"
    using assms(2)
      characteristics_first_writable [where btoa = btoa and pl = pl and wr = wr and dev = dev
        and svc = "uuid service" and unexamined = unexamined, OF assms(3,4)]
    by (cases "selected_completion (btoa pl) wr") simp_all
  then show ?thesis using services_skip [OF assms(1), of btoa wr pl dev "service # later"] by simp
qed

lemma sendPayload_connected:
  assumes "managerRef st \<noteq> None" and "connected st = Some dev" and "services dev = Inr svcs"
  shows "snd (sendPayload btoa wr st) =
           Call_services (deviceId dev) #
           (case sendPayload_services btoa wr (payload st) (deviceId dev) svcs of
              (r, es) \<Rightarrow>
                es @ (case r of
                        Normal \<Rightarrow> [Alert_alert NoCharacteristic]
                      | Returned \<Rightarrow> []
                      | Threw err \<Rightarrow> [Console_warn None err, Alert_alert ErrorNoSePudoEnviar]))"
  using assms by (auto simp add: sendPayload_def ensureManager_def split: prod.splits completion.splits)

lemma sendPayload_first_writable:
  assumes "managerRef st \<noteq> None" and "connected st = Some dev"
    and "services dev = Inr (before @ service # later)"
    and "\<forall>s\<in>set before. \<exists>cs. characteristics s = Inr cs \<and> (\<forall>c\<in>set cs. \<not> writable c)"
    and "characteristics service = Inr (skipped @ c # unexamined)"
    and "\<forall>x\<in>set skipped. \<not> writable x" and "writable c"
  shows "snd (sendPayload btoa wr st) =
           Call_services (deviceId dev) # map (\<lambda>s. Call_characteristics (uuid s)) before @
           Call_characteristics (uuid service) #
           (case btoa (payload st) of
              Inl e \<Rightarrow> [Console_warn None e, Alert_alert ErrorNoSePudoEnviar]
            | Inr encoded \<Rightarrow>
                Call_writeCharacteristicWithResponseForDevice
                  (deviceId dev) (uuid service) (uuid c) encoded #
                (case wr of
                   Inl e \<Rightarrow> [Console_warn None e, Alert_alert ErrorNoSePudoEnviar]
                 | Inr u \<Rightarrow> [Alert_alert Enviado]))"
  using sendPayload_connected [OF assms(1,2,3), of btoa wr]
    services_first_writable [where btoa = btoa and pl = "payload st" and wr = wr
        and dev = "deviceId dev" and later = later, OF assms(4,5,6,7)]
  by (cases "btoa (payload st)"; cases wr)
    (simp_all add: selected_completion_def selected_effects_def)

lemma filter_is_write_characteristics [simp]:
  "filter is_write (map (\<lambda>s. Call_characteristics (uuid s)) svcs) = []"
  by (induction svcs) simp_all

lemma no_write_without_response_characteristics:
  "sendPayload_characteristics btoa wr pl dev svc cs = (r, es) \<Longrightarrow>
   Call_writeCharacteristicWithoutResponseForDevice d s c v \<notin> set es"
  by (induction cs) (auto split: sum.splits if_splits)

lemma no_write_without_response_services:
  "sendPayload_services btoa wr pl dev svcs = (r, es) \<Longrightarrow>
   Call_writeCharacteristicWithoutResponseForDevice d s c v \<notin> set es"
proof (induction svcs arbitrary: r es)
  case Nil
  then show ?case by simp
next
  case (Cons service rest)
  then show ?case
    by (auto split: sum.splits prod.splits completion.splits
        dest: no_write_without_response_characteristics)
qed

lemma no_write_without_response:
  "Call_writeCharacteristicWithoutResponseForDevice d s c v \<notin> set (snd (sendPayload btoa wr st))"
  by (auto simp add: sendPayload_def ensureManager_def
      split: option.splits sum.splits prod.splits completion.splits
      dest: no_write_without_response_services)

text \<open>The success alert is shown only after a write with response has been issued.\<close>

lemma enviado_after_write_characteristics:
  "sendPayload_characteristics btoa wr pl dev svc cs = (r, es) \<Longrightarrow>
   Alert_alert Enviado \<in> set es \<Longrightarrow>
   \<exists>si ci v. Call_writeCharacteristicWithResponseForDevice dev si ci v \<in> set es"
  by (induction cs) (auto split: sum.splits if_splits)

lemma enviado_after_write_services:
  "sendPayload_services btoa wr pl dev svcs = (r, es) \<Longrightarrow>
   Alert_alert Enviado \<in> set es \<Longrightarrow>
   \<exists>si ci v. Call_writeCharacteristicWithResponseForDevice dev si ci v \<in> set es"
proof (induction svcs arbitrary: r es)
  case Nil
  then show ?case by simp
next
  case (Cons service rest)
  show ?case
  proof (cases "characteristics service")
    case (Inl e)
    with Cons.prems show ?thesis by auto
  next
    case (Inr cs)
    obtain r1 es1 where c: "sendPayload_characteristics btoa wr pl dev (uuid service) cs = (r1, es1)"
      by (cases "sendPayload_characteristics btoa wr pl dev (uuid service) cs")
    obtain r2 es2 where s: "sendPayload_services btoa wr pl dev rest = (r2, es2)"
      by (cases "sendPayload_services btoa wr pl dev rest")
    from Cons.prems Inr c s have "Alert_alert Enviado \<in> set es1 \<or> Alert_alert Enviado \<in> set es2"
      and sub: "set es1 \<subseteq> set es" "r1 = Normal \<Longrightarrow> set es2 \<subseteq> set es"
      and "Alert_alert Enviado \<in> set es2 \<Longrightarrow> Alert_alert Enviado \<notin> set es1 \<Longrightarrow> r1 = Normal"
      by (auto split: completion.splits)
    then show ?thesis
      using enviado_after_write_characteristics [OF c] Cons.IH [OF s] by blast
  qed
qed

lemma enviado_after_write:
  "Alert_alert Enviado \<in> set (snd (sendPayload btoa wr st)) \<Longrightarrow>
   \<exists>di si ci v. Call_writeCharacteristicWithResponseForDevice di si ci v
                 \<in> set (snd (sendPayload btoa wr st))"
  by (auto simp add: sendPayload_def ensureManager_def
      split: option.splits sum.splits prod.splits completion.splits
      dest!: enviado_after_write_services)

subsection \<open>Connecting\<close>

text \<open>
  The effects of a connection when the BLE client exists: the scan is stopped first, and
  the connection is opened only if the removal of the stored subscription does not throw.
\<close>

lemma connectToDevice_effects:
  assumes "managerRef st \<noteq> None"
  shows "snd (connectToDevice device conn disc st) =
           Call_stopDeviceScan #
           (case scanSubscription st of
              Unremovable \<Rightarrow>
                [Console_warn None (TypeError ''remove is not a function''),
                 Alert_alert ErrorNoSePudoConectar]
            | handle \<Rightarrow>
                (case handle of Removable s \<Rightarrow> [Call_remove s] | other \<Rightarrow> []) @
                Call_connectToDevice (deviceId device) #
                (case conn of
                   Inl e \<Rightarrow> [Console_warn None e, Alert_alert ErrorNoSePudoConectar]
                 | Inr d \<Rightarrow>
                     Call_discoverAllServicesAndCharacteristics (deviceId d) #
                     (case disc of
                        Inl e \<Rightarrow> [Console_warn None e, Alert_alert ErrorNoSePudoConectar]
                      | Inr u \<Rightarrow> [Alert_alert (Conectado (displayName d))])))"
proof -
  from assms obtain m where "managerRef st = Some m" by auto
  then show ?thesis
    by (cases conn; cases disc; cases "scanSubscription st")
      (simp_all add: connectToDevice_def ensureManager_def stopScan_def)
qed

subsection \<open>The example states\<close>

lemma ex_mounted_eq:
  "ex_mounted = \<lparr>devices = [], scanning = False, connected = None, payload = [],
                 scanSubscription = Nullish, managerRef = Some BleManager\<rparr>"
  by (simp add: ex_mounted_def mount_def)

lemma ex_no_ble_eq:
  "ex_no_ble = \<lparr>devices = [], scanning = False, connected = None, payload = [],
                scanSubscription = Nullish, managerRef = None\<rparr>"
  by (simp add: ex_no_ble_def mount_def)

lemma ex_scanning_eq:
  "ex_scanning = \<lparr>devices = [], scanning = True, connected = None, payload = [],
                  scanSubscription = Removable (Subscription 1), managerRef = Some BleManager\<rparr>"
  by (simp add: ex_scanning_def ex_mounted_eq startScan_def ensureManager_def
      requestAndroidPermissions_def ex_granted_def)

lemma ex_listed_eq:
  "ex_listed = \<lparr>devices = [ex_discovered], scanning = True, connected = None, payload = [],
                scanSubscription = Removable (Subscription 1), managerRef = Some BleManager\<rparr>"
  by (simp add: ex_listed_def ex_scanning_eq scanListener_def ex_discovered_def)

lemma ex_connected_eq:
  "ex_connected = \<lparr>devices = [ex_discovered], scanning = False, connected = Some ex_car,
                   payload = [70], scanSubscription = Removable (Subscription 1),
                   managerRef = Some BleManager\<rparr>"
  by (simp add: ex_connected_def ex_listed_eq connectToDevice_def ensureManager_def stopScan_def)

lemma ex_connected_euro_eq:
  "ex_connected_euro = \<lparr>devices = [ex_discovered], scanning = False, connected = Some ex_car,
                        payload = [8364], scanSubscription = Removable (Subscription 1),
                        managerRef = Some BleManager\<rparr>"
  by (simp add: ex_connected_euro_def ex_connected_eq)

lemma ex_connected_sensor_eq:
  "ex_connected_sensor =
     \<lparr>devices = [ex_discovered], scanning = False, connected = Some ex_sensor,
      payload = [], scanSubscription = Removable (Subscription 1),
      managerRef = Some BleManager\<rparr>"
  by (simp add: ex_connected_sensor_def ex_listed_eq connectToDevice_def ensureManager_def
      stopScan_def)

lemma ex_scanning_promise_eq:
  "ex_scanning_promise =
     \<lparr>devices = [], scanning = True, connected = None, payload = [],
      scanSubscription = Unremovable, managerRef = Some BleManager\<rparr>"
  by (simp add: ex_scanning_promise_def ex_mounted_eq startScan_def ensureManager_def
      requestAndroidPermissions_def ex_granted_def)

lemma ex_listed_promise_eq:
  "ex_listed_promise =
     \<lparr>devices = [ex_discovered], scanning = True, connected = None, payload = [],
      scanSubscription = Unremovable, managerRef = Some BleManager\<rparr>"
  by (simp add: ex_listed_promise_def ex_scanning_promise_eq scanListener_def ex_discovered_def)

lemma ex_mounted_reachable: "reachable ex_mounted"
  unfolding ex_mounted_def by (rule r_mount)

lemma ex_no_ble_reachable: "reachable ex_no_ble"
  unfolding ex_no_ble_def by (rule r_mount)

lemma ex_scanning_reachable: "reachable ex_scanning"
  unfolding ex_scanning_def by (rule r_startScan [OF ex_mounted_reachable])

lemma ex_listed_reachable: "reachable ex_listed"
  unfolding ex_listed_def
  by (rule r_scanListener [OF ex_scanning_reachable]) (simp add: ex_scanning_eq)

lemma ex_connected_reachable: "reachable ex_connected"
  unfolding ex_connected_def
  by (rule r_setPayload, rule r_connectToDevice [OF ex_listed_reachable]) (simp add: ex_listed_eq)

lemma ex_connected_euro_reachable: "reachable ex_connected_euro"
  unfolding ex_connected_euro_def by (rule r_setPayload [OF ex_connected_reachable])

lemma ex_connected_sensor_reachable: "reachable ex_connected_sensor"
  unfolding ex_connected_sensor_def
  by (rule r_connectToDevice [OF ex_listed_reachable]) (simp add: ex_listed_eq)

lemma ex_scanning_promise_reachable: "reachable ex_scanning_promise"
  unfolding ex_scanning_promise_def by (rule r_startScan [OF ex_mounted_reachable])

lemma ex_listed_promise_reachable: "reachable ex_listed_promise"
  unfolding ex_listed_promise_def
  by (rule r_scanListener [OF ex_scanning_promise_reachable]) (simp add: ex_scanning_promise_eq)

section \<open>The claims\<close>

subsection \<open>Sending the payload\<close>

text \<open>
  Claim C1, as amended. Let the screen be in a state it can reach, with a connected device
  whose services enumerate to \<open>before @ service # later\<close>, where every service of \<open>before\<close>
  enumerates its characteristics and none of them is flagged writable, and where the
  characteristics of \<open>service\<close> are \<open>skipped @ c # unexamined\<close> with \<open>c\<close> the first one
  flagged writable (with or without response). Then send-payload asks for the services,
  asks each service of \<open>before\<close> and then \<open>service\<close> for its characteristics, in the order of
  the list, and encodes the payload. If the encoder accepts the payload, send-payload writes
  the encoded payload to \<open>c\<close> of \<open>service\<close> on the connected device, exactly once, and ends:
  with the alert "Enviado" if the write resolves, with the diagnostic and the generic alert
  if it rejects. If the encoder throws, send-payload issues no write and ends with the
  diagnostic and the generic alert. The whole effect list is given, so nothing is asked of
  a service of \<open>later\<close>, and neither \<open>unexamined\<close> nor \<open>later\<close> has any influence on what
  happens.
\<close>

theorem sendPayload_writes_once_to_first_writable:
  assumes "reachable st" and "connected st = Some dev"
    and "services dev = Inr (before @ service # later)"
    and "\<forall>s\<in>set before. \<exists>cs. characteristics s = Inr cs \<and> (\<forall>c\<in>set cs. \<not> writable c)"
    and "characteristics service = Inr (skipped @ c # unexamined)"
    and "\<forall>x\<in>set skipped. \<not> writable x" and "writable c"
  shows "snd (sendPayload btoa wr st) =
           Call_services (deviceId dev) # map (\<lambda>s. Call_characteristics (uuid s)) before @
           Call_characteristics (uuid service) #
           (case btoa (payload st) of
              Inl e \<Rightarrow> [Console_warn None e, Alert_alert ErrorNoSePudoEnviar]
            | Inr encoded \<Rightarrow>
                Call_writeCharacteristicWithResponseForDevice
                  (deviceId dev) (uuid service) (uuid c) encoded #
                (case wr of
                   Inl e \<Rightarrow> [Console_warn None e, Alert_alert ErrorNoSePudoEnviar]
                 | Inr u \<Rightarrow> [Alert_alert Enviado]))
         \<and> length (filter is_write (snd (sendPayload btoa wr st))) =
             (case btoa (payload st) of Inl e \<Rightarrow> 0 | Inr encoded \<Rightarrow> 1)"
proof -
  have m: "managerRef st \<noteq> None"
    using assms(1,2) by (simp add: reachable_connected_manager)
  note t = sendPayload_first_writable [where btoa = btoa and wr = wr, OF m assms(2-7)]
  show ?thesis unfolding t by (cases "btoa (payload st)"; cases wr) simp_all
qed

text \<open>
  The peripheral of the example: the write goes to the third characteristic of the second
  service; the fourth characteristic and the third service, both writable, are not reached.
\<close>

theorem sendPayload_writes_once_to_first_writable_witness:
  "reachable ex_connected \<and> connected ex_connected = Some ex_car \<and>
   snd (sendPayload ex_btoa (Inr ()) ex_connected) =
     [Call_services ''AA:BB:CC:DD:EE:FF'', Call_characteristics ''1800'',
      Call_characteristics ''ffe0'',
      Call_writeCharacteristicWithResponseForDevice ''AA:BB:CC:DD:EE:FF'' ''ffe0'' ''ffe3'' ''Rg=='',
      Alert_alert Enviado] \<and>
   length (filter is_write (snd (sendPayload ex_btoa (Inr ()) ex_connected))) = 1"
  using sendPayload_writes_once_to_first_writable
    [where st = ex_connected and dev = ex_car and before = "[ex_service1]"
       and service = ex_service2 and later = "[ex_service3]"
       and skipped = "[ex_characteristic ''ffe1'' False False, ex_characteristic ''ffe2'' False False]"
       and c = "ex_characteristic ''ffe3'' False True"
       and unexamined = "[ex_characteristic ''ffe4'' True False]"
       and btoa = ex_btoa and wr = "Inr ()"]
    ex_connected_reachable
  by (simp add: ex_connected_eq ex_car_def ex_discovered_def ex_service1_def ex_service2_def
      ex_characteristic_def ex_btoa_def)

text \<open>
  Claim C1 as stated fails: the text field takes any text, and the encoder throws on a text
  outside Latin-1. With the same peripheral connected and the euro sign as payload,
  send-payload finds the writable characteristic, the encoder throws at line 139, and the
  \<open>catch\<close> of lines 152 to 154 reports the failure: no write is issued.
\<close>

theorem sendPayload_writes_once_to_first_writable_counterexample:
  "reachable ex_connected_euro \<and> connected ex_connected_euro = Some ex_car \<and>
   snd (sendPayload ex_btoa (Inr ()) ex_connected_euro) =
     [Call_services ''AA:BB:CC:DD:EE:FF'', Call_characteristics ''1800'',
      Call_characteristics ''ffe0'',
      Console_warn None (Thrown ''InvalidCharacterError''), Alert_alert ErrorNoSePudoEnviar] \<and>
   filter is_write (snd (sendPayload ex_btoa (Inr ()) ex_connected_euro)) = []"
  using ex_connected_euro_reachable
  by (simp add: ex_connected_euro_eq sendPayload_def ensureManager_def ex_car_def
      ex_discovered_def ex_service1_def ex_service2_def ex_service3_def ex_characteristic_def
      ex_btoa_def)

text \<open>
  Claim C3. In a state the screen can reach, with a connected device whose services all
  enumerate their characteristics and none of them is flagged writable (with or without
  response), send-payload asks for the services, asks every service for its
  characteristics, shows the alert "No characteristic" and issues no write.
\<close>

theorem sendPayload_no_writable_characteristic:
  assumes "reachable st" and "connected st = Some dev" and "services dev = Inr svcs"
    and "\<forall>s\<in>set svcs. \<exists>cs. characteristics s = Inr cs \<and> (\<forall>c\<in>set cs. \<not> writable c)"
  shows "snd (sendPayload btoa wr st) =
           Call_services (deviceId dev) # map (\<lambda>s. Call_characteristics (uuid s)) svcs @
           [Alert_alert NoCharacteristic]
         \<and> filter is_write (snd (sendPayload btoa wr st)) = []"
proof -
  have m: "managerRef st \<noteq> None"
    using assms(1,2) by (simp add: reachable_connected_manager)
  have t: "snd (sendPayload btoa wr st) =
           Call_services (deviceId dev) # map (\<lambda>s. Call_characteristics (uuid s)) svcs @
           [Alert_alert NoCharacteristic]"
    using sendPayload_connected [OF m assms(2,3), of btoa wr]
      services_none_writable [OF assms(4), of btoa wr "payload st" "deviceId dev"]
    by simp
  show ?thesis unfolding t by simp
qed

theorem sendPayload_no_writable_characteristic_witness:
  "reachable ex_connected_sensor \<and> connected ex_connected_sensor = Some ex_sensor \<and>
   snd (sendPayload ex_btoa (Inr ()) ex_connected_sensor) =
     [Call_services ''AA:BB:CC:DD:EE:FF'', Call_characteristics ''1800'',
      Call_characteristics ''1800'', Alert_alert NoCharacteristic] \<and>
   filter is_write (snd (sendPayload ex_btoa (Inr ()) ex_connected_sensor)) = []"
  using sendPayload_no_writable_characteristic
    [where st = ex_connected_sensor and dev = ex_sensor and svcs = "[ex_service1, ex_service1]"
       and btoa = ex_btoa and wr = "Inr ()"]
    ex_connected_sensor_reachable
  by (simp add: ex_connected_sensor_eq ex_sensor_def ex_discovered_def ex_service1_def
      ex_characteristic_def)

text \<open>
  Claim C4, as amended. Whenever the connected state is null, send-payload leaves the
  state alone and performs exactly one effect, an alert: "No conectado" when the BLE
  client exists, "BLE no disponible" when it does not. In both cases no service is
  enumerated and no write is issued.
\<close>

theorem sendPayload_not_connected:
  "connected st = None \<Longrightarrow>
   sendPayload btoa wr st =
     (st, [Alert_alert (if managerRef st = None then BleNoDisponible else NoConectado)])"
  by (simp add: sendPayload_def ensureManager_def split: option.splits)

theorem sendPayload_not_connected_witness:
  "connected ex_mounted = None \<and>
   sendPayload ex_btoa (Inr ()) ex_mounted = (ex_mounted, [Alert_alert NoConectado])"
  using sendPayload_not_connected [of ex_mounted ex_btoa "Inr ()"] by (simp add: ex_mounted_eq)

text \<open>
  Claim C4 as stated fails: when the construction of the BLE client threw at mount, the
  connected state is null, and send-payload stops at \<open>ensureManager\<close> (lines 127 and 128)
  with the alert "BLE no disponible"; "No conectado" is not shown.
\<close>

theorem sendPayload_not_connected_counterexample:
  "reachable ex_no_ble \<and> connected ex_no_ble = None \<and>
   snd (sendPayload ex_btoa (Inr ()) ex_no_ble) = [Alert_alert BleNoDisponible] \<and>
   Alert_alert NoConectado \<notin> set (snd (sendPayload ex_btoa (Inr ()) ex_no_ble))"
  using ex_no_ble_reachable by (simp add: ex_no_ble_eq sendPayload_def ensureManager_def)

text \<open>
  Claim C9. Whatever the state and whatever the outside world answers, send-payload never
  issues a write without response, and it shows the success alert only when it has issued
  a write with response. For the characteristic it selects, whichever of the two flags makes
  it writable, the writes it issues are: none if the encoder throws, and otherwise the one
  write with response of the encoded payload to that characteristic.
\<close>

theorem sendPayload_writes_with_response:
  "Call_writeCharacteristicWithoutResponseForDevice di si ci v \<notin> set (snd (sendPayload btoa wr st))
   \<and> (Alert_alert Enviado \<in> set (snd (sendPayload btoa wr st)) \<longrightarrow>
        (\<exists>dj sj cj w. Call_writeCharacteristicWithResponseForDevice dj sj cj w
                       \<in> set (snd (sendPayload btoa wr st))))
   \<and> (reachable st \<longrightarrow> connected st = Some dev \<longrightarrow>
      services dev = Inr (before @ service # later) \<longrightarrow>
      (\<forall>s\<in>set before. \<exists>cs. characteristics s = Inr cs \<and> (\<forall>c\<in>set cs. \<not> writable c)) \<longrightarrow>
      characteristics service = Inr (skipped @ c # unexamined) \<longrightarrow>
      (\<forall>x\<in>set skipped. \<not> writable x) \<longrightarrow>
      writable c \<longrightarrow>
      filter is_write (snd (sendPayload btoa wr st)) =
        (case btoa (payload st) of
           Inl e \<Rightarrow> []
         | Inr encoded \<Rightarrow>
             [Call_writeCharacteristicWithResponseForDevice
                (deviceId dev) (uuid service) (uuid c) encoded]))"
proof (intro conjI impI)
  show "Call_writeCharacteristicWithoutResponseForDevice di si ci v \<notin> set (snd (sendPayload btoa wr st))"
    by (rule no_write_without_response)
next
  assume "Alert_alert Enviado \<in> set (snd (sendPayload btoa wr st))"
  then show "\<exists>dj sj cj w. Call_writeCharacteristicWithResponseForDevice dj sj cj w
                       \<in> set (snd (sendPayload btoa wr st))"
    by (rule enviado_after_write)
next
  assume a: "reachable st" "connected st = Some dev"
    "services dev = Inr (before @ service # later)"
    "\<forall>s\<in>set before. \<exists>cs. characteristics s = Inr cs \<and> (\<forall>c\<in>set cs. \<not> writable c)"
    "characteristics service = Inr (skipped @ c # unexamined)"
    "\<forall>x\<in>set skipped. \<not> writable x"
    "writable c"
  have m: "managerRef st \<noteq> None"
    using a(1,2) by (simp add: reachable_connected_manager)
  note t = sendPayload_first_writable [where btoa = btoa and wr = wr, OF m a(2-7)]
  show "filter is_write (snd (sendPayload btoa wr st)) =
        (case btoa (payload st) of
           Inl e \<Rightarrow> []
         | Inr encoded \<Rightarrow>
             [Call_writeCharacteristicWithResponseForDevice
                (deviceId dev) (uuid service) (uuid c) encoded])"
    unfolding t by (cases "btoa (payload st)"; cases wr) simp_all
qed

text \<open>
  The selected characteristic of the example is writable without response only; the write,
  which rejects here, is a write with response.
\<close>

theorem sendPayload_writes_with_response_witness:
  "reachable ex_connected \<and> connected ex_connected = Some ex_car \<and>
   \<not> isWritableWithResponse (ex_characteristic ''ffe3'' False True) \<and>
   isWritableWithoutResponse (ex_characteristic ''ffe3'' False True) \<and>
   filter is_write (snd (sendPayload ex_btoa (Inl (Thrown ''write failed'')) ex_connected)) =
     [Call_writeCharacteristicWithResponseForDevice ''AA:BB:CC:DD:EE:FF'' ''ffe0'' ''ffe3'' ''Rg==''] \<and>
   Alert_alert Enviado \<in> set (snd (sendPayload ex_btoa (Inr ()) ex_connected))"
  using sendPayload_writes_with_response
    [where st = ex_connected and dev = ex_car and before = "[ex_service1]"
       and service = ex_service2 and later = "[ex_service3]"
       and skipped = "[ex_characteristic ''ffe1'' False False, ex_characteristic ''ffe2'' False False]"
       and c = "ex_characteristic ''ffe3'' False True"
       and unexamined = "[ex_characteristic ''ffe4'' True False]"
       and btoa = ex_btoa and wr = "Inl (Thrown ''write failed'')"]
    ex_connected_reachable
  by (simp add: ex_connected_eq ex_car_def ex_discovered_def ex_service1_def ex_service2_def
      ex_service3_def ex_characteristic_def ex_btoa_def sendPayload_def ensureManager_def)

subsection \<open>Scanning\<close>

text \<open>
  Claim C5. In every state the mounted screen reaches, no two devices of the list have the
  same identifier. A start-scan that starts the scan leaves the list empty; a discovery
  event appends its device exactly when the identifier is non-empty and not yet in the
  list, and otherwise leaves the list as it is; and a scan started, some events delivered, a
  scan started again without a stop in between, and more events delivered, leave a list
  without duplicates.
\<close>

theorem device_identifiers_unique:
  assumes "reachable st"
  shows "distinct (map deviceId (devices st))
       \<and> (Call_startDeviceScan \<in> set (snd (startScan os response sub st)) \<longrightarrow>
            devices (fst (startScan os response sub st)) = [])
       \<and> devices (fst (scanListener None (Some dv) st)) =
            (if deviceId dv = [] \<or> deviceId dv \<in> deviceId ` set (devices st) then devices st
             else devices st @ [dv])
       \<and> distinct (map deviceId (devices
            (scanEvents events_again (fst (startScan os_again response_again sub_again
              (scanEvents events_first (fst (startScan os response sub st))))))))"
proof -
  have d: "distinct (map deviceId (devices st))"
    using assms by (rule reachable_distinct)
  have twice: "distinct (map deviceId (devices
            (scanEvents events_again (fst (startScan os_again response_again sub_again
              (scanEvents events_first (fst (startScan os response sub st))))))))"
    by (intro distinct_scanEvents distinct_startScan d)
  show ?thesis
    using d twice startScan_started_clears [of os response sub st]
    by (simp add: devices_scanListener)
qed

theorem device_identifiers_unique_witness:
  "reachable ex_listed \<and> devices ex_listed = [ex_discovered] \<and>
   devices (fst (scanListener None (Some ex_car) ex_listed)) = [ex_discovered] \<and>
   devices (fst (startScan Android (Inr ex_granted) (Removable (Subscription 2)) ex_listed)) = [] \<and>
   distinct (map deviceId (devices
     (scanEvents [(None, Some ex_car), (None, Some ex_discovered)]
       (fst (startScan Android (Inr ex_granted) (Removable (Subscription 2))
         (scanEvents [(None, Some ex_discovered), (None, Some ex_car)]
           (fst (startScan Android (Inr ex_granted) (Removable (Subscription 1)) ex_listed))))))))"
  using device_identifiers_unique
    [where st = ex_listed and os = Android and response = "Inr ex_granted"
       and sub = "Removable (Subscription 1)" and dv = ex_car and os_again = Android
       and response_again = "Inr ex_granted" and sub_again = "Removable (Subscription 2)"
       and events_first = "[(None, Some ex_discovered), (None, Some ex_car)]"
       and events_again = "[(None, Some ex_car), (None, Some ex_discovered)]"]
    device_identifiers_unique
    [where st = ex_listed and os = Android and response = "Inr ex_granted"
       and sub = "Removable (Subscription 2)"]
    ex_listed_reachable
  by (simp add: ex_listed_eq ex_car_def ex_discovered_def startScan_def ensureManager_def
      requestAndroidPermissions_def ex_granted_def)



text \<open>
  Claim C8, as amended. On Android, when the BLE client exists, start-scan requests the
  three permissions. If fine location or Bluetooth scan is granted it proceeds: it clears
  the device list, sets the scanning flag and starts the scan. If neither is granted, or the
  request fails, it shows the alert "Permisos" and returns with the state, and so the device
  list, unchanged and no scan started. When the BLE client does not exist, start-scan
  requests no permission, shows the alert "BLE no disponible" and returns with the state
  unchanged.
\<close>

theorem startScan_permission_gate:
  "startScan Android response sub st =
     (case managerRef st of
        None \<Rightarrow> (st, [Alert_alert BleNoDisponible])
      | Some manager \<Rightarrow>
          if \<exists>granted. response = Inr granted \<and>
               (granted ACCESS_FINE_LOCATION = Some GRANTED \<or> granted BLUETOOTH_SCAN = Some GRANTED)
          then (st\<lparr>devices := [], scanning := True, scanSubscription := sub\<rparr>,
                [Call_requestMultiple [ACCESS_FINE_LOCATION, BLUETOOTH_SCAN, BLUETOOTH_CONNECT],
                 Call_startDeviceScan])
          else (st, [Call_requestMultiple [ACCESS_FINE_LOCATION, BLUETOOTH_SCAN, BLUETOOTH_CONNECT],
                     Alert_alert Permisos]))"
  by (cases "managerRef st"; cases response)
    (auto simp add: startScan_def ensureManager_def requestAndroidPermissions_def)

text \<open>
  With the device list holding a device: permissions denied, then the scan permission
  granted.
\<close>

theorem startScan_permission_gate_witness:
  "startScan Android (Inr ex_denied) (Removable (Subscription 2)) ex_listed =
     (ex_listed, [Call_requestMultiple [ACCESS_FINE_LOCATION, BLUETOOTH_SCAN, BLUETOOTH_CONNECT],
                  Alert_alert Permisos]) \<and>
   devices ex_listed = [ex_discovered] \<and>
   startScan Android (Inr ex_granted) (Removable (Subscription 2)) ex_listed =
     (ex_listed\<lparr>devices := [], scanning := True, scanSubscription := Removable (Subscription 2)\<rparr>,
      [Call_requestMultiple [ACCESS_FINE_LOCATION, BLUETOOTH_SCAN, BLUETOOTH_CONNECT],
       Call_startDeviceScan])"
  using startScan_permission_gate
    [where response = "Inr ex_denied" and sub = "Removable (Subscription 2)" and st = ex_listed]
    startScan_permission_gate
    [where response = "Inr ex_granted" and sub = "Removable (Subscription 2)" and st = ex_listed]
  by (simp add: ex_listed_eq ex_denied_def ex_granted_def)

text \<open>
  Claim C8 as stated fails: on Android, when the construction of the BLE client threw at
  mount and neither permission is granted, start-scan stops at \<open>ensureManager\<close> (lines 79
  and 80) with the alert "BLE no disponible"; no permission is requested and the
  permission notice is not shown.
\<close>

theorem startScan_permission_gate_counterexample:
  "reachable ex_no_ble \<and>
   ex_denied ACCESS_FINE_LOCATION \<noteq> Some GRANTED \<and> ex_denied BLUETOOTH_SCAN \<noteq> Some GRANTED \<and>
   startScan Android (Inr ex_denied) Nullish ex_no_ble = (ex_no_ble, [Alert_alert BleNoDisponible]) \<and>
   Alert_alert Permisos \<notin> set (snd (startScan Android (Inr ex_denied) Nullish ex_no_ble))"
  using ex_no_ble_reachable
  by (simp add: ex_no_ble_eq startScan_def ensureManager_def ex_denied_def)

subsection \<open>Connecting and disconnecting\<close>

text \<open>
  Claim C6. The screen starts a scan, the BLE client returns a promise from
  \<open>startDeviceScan\<close>, which line 88 stores, and a device is discovered. Connect to that
  device then tells the BLE client to stop the scan and clears the scanning flag, but the
  call of \<open>remove\<close> on the stored promise at line 108 throws inside the \<open>try\<close>: the connection
  is not opened, no services are discovered, the connected state stays null, and the
  failure alert is shown, although the BLE client would have connected and discovered.
\<close>

theorem connect_throws_before_opening_connection:
  "reachable ex_listed_promise \<and> ex_discovered \<in> set (devices ex_listed_promise) \<and>
   scanSubscription ex_listed_promise = Unremovable \<and>
   connectToDevice ex_discovered (Inr ex_car) (Inr ()) ex_listed_promise =
     (ex_listed_promise\<lparr>scanning := False\<rparr>,
      [Call_stopDeviceScan, Console_warn None (TypeError ''remove is not a function''),
       Alert_alert ErrorNoSePudoConectar]) \<and>
   Call_connectToDevice ''AA:BB:CC:DD:EE:FF'' \<notin>
     set (snd (connectToDevice ex_discovered (Inr ex_car) (Inr ()) ex_listed_promise)) \<and>
   connected (fst (connectToDevice ex_discovered (Inr ex_car) (Inr ()) ex_listed_promise)) = None"
  using ex_listed_promise_reachable
  by (simp add: ex_listed_promise_eq connectToDevice_def ensureManager_def stopScan_def)

text \<open>
  Claim C10. After connect, the connected state is the device the BLE client returned if
  the BLE client exists, stopping the scan did not throw, the connection was opened and the
  discovery succeeded; in every other case, in particular when stopping the scan, the
  connection or the discovery fails, it is what it was before.
\<close>

theorem connect_failure_keeps_connected:
  "connected (fst (connectToDevice device conn disc st)) =
     (case conn of
        Inl e \<Rightarrow> connected st
      | Inr d \<Rightarrow>
          (case disc of
             Inl e \<Rightarrow> connected st
           | Inr u \<Rightarrow>
               if managerRef st = None \<or> scanSubscription st = Unremovable then connected st
               else Some d))"
  by (cases "managerRef st"; cases conn; cases disc; cases "scanSubscription st")
    (simp_all add: connectToDevice_def ensureManager_def stopScan_def)

text \<open>
  Claim C2. With a device connected and no global variable named \<open>manager\<close>, as in the
  runtime of the app, the handler of the disconnect button throws a reference error at its
  first statement: no connection is cancelled, the connected state keeps the device, and
  no alert is shown.
\<close>

theorem disconnect_throws_reference_error:
  "reachable ex_connected \<and> connected ex_connected = Some ex_car \<and>
   disconnectButton_onPress None ex_connected =
     (ex_connected, [], Some (ReferenceError ''manager'')) \<and>
   connected (fst (disconnectButton_onPress None ex_connected)) \<noteq> None \<and>
   Call_cancelDeviceConnection ''AA:BB:CC:DD:EE:FF'' \<notin>
     set (fst (snd (disconnectButton_onPress None ex_connected)))"
  using ex_connected_reachable by (simp add: ex_connected_eq disconnectButton_onPress_def)

end
